theory Spec2Isabelle
  imports Complex_Main
begin

section \<open>Data model of the canvas store\<close>

text \<open>
  The store is the zustand store of \<^verbatim>\<open>canvasStore\<close>. JavaScript numbers are modelled as
  \<^typ>\<open>real\<close>, strings as \<^typ>\<open>string\<close>, an optional field as an \<^typ>\<open>'a option\<close>
  (\<^term>\<open>None\<close> for \<^verbatim>\<open>undefined\<close>) and a \<^verbatim>\<open>Date\<close> as the number of milliseconds it
  holds. Every action that reads the clock (\<^verbatim>\<open>Date.now()\<close>, \<^verbatim>\<open>new Date()\<close>) takes the
  reading as its first argument \<open>now\<close>. Timers started by an action (\<^verbatim>\<open>setTimeout\<close> for
  the auto-save, which only writes to local storage) are outside the store state.
\<close>

datatype content_type = TextContent | ImageContent | LinkContent | VideoContent

record node_content =
  c_type :: content_type
  c_value :: string
  c_title :: "string option"
  c_images :: "string list option"
  c_links :: "(string \<times> string) list option"
  c_videos :: "string list option"

record node =
  node_id :: string
  node_x :: real
  node_y :: real
  node_width :: real
  node_height :: real
  node_content :: node_content
  groupId :: "string option"
  node_color :: string
  selected :: bool
  isNew :: "bool option"
  createdAt :: nat
  updatedAt :: nat
  comment :: "string option"
  tags :: "string list option"

record connection =
  conn_id :: string
  fromNodeId :: string
  toNodeId :: string
  fromPoint :: "string option"
  toPoint :: "string option"
  conn_color :: string

record node_group =
  group_id :: string
  group_name :: string
  group_color :: string
  group_nodes :: "string list"

record canvas_transform =
  t_x :: real
  t_y :: real
  scale :: real

record selection_box =
  startX :: real
  startY :: real
  endX :: real
  endY :: real
  isActive :: bool

record snapshot =
  snap_nodes :: "node list"
  snap_connections :: "connection list"
  snap_groups :: "node_group list"

record history =
  past :: "snapshot list"
  present :: snapshot
  future :: "snapshot list"

datatype theme = Light | Dark | System

record settings =
  theme :: theme
  username :: string
  email :: string

record connection_suggestion =
  nodeId1 :: string
  nodeId2 :: string
  reason :: string
  confidence :: real

record ai_suggestions =
  ai_connections :: "connection_suggestion list"
  groupSummary :: "string option"
  groupNames :: "string list"
  isLoading :: bool
  ai_error :: "string option"

record canvas_state =
  canvasName :: string
  nodes :: "node list"
  connections :: "connection list"
  groups :: "node_group list"
  transform :: canvas_transform
  selectedNodeId :: "string option"
  selectedNodeIds :: "string list"
  selectionBox :: selection_box
  isDragging :: bool
  isConnecting :: bool
  connectingFromNodeId :: "string option"
  history :: history
  settings :: settings
  activeTagFilter :: "string option"
  hiddenNodes :: "string set"
  highlightedGroupId :: "string option"
  aiSuggestions :: ai_suggestions

text \<open>\<^verbatim>\<open>Partial<Node>\<close>, \<^verbatim>\<open>Partial<NodeGroup>\<close> and \<^verbatim>\<open>Partial<CanvasTransform>\<close>: each
  field is either absent (\<^term>\<open>None\<close>) or carries the value the spread writes.\<close>

record node_updates =
  u_id :: "string option"
  u_x :: "real option"
  u_y :: "real option"
  u_width :: "real option"
  u_height :: "real option"
  u_content :: "node_content option"
  u_groupId :: "string option option"
  u_color :: "string option"
  u_selected :: "bool option"
  u_isNew :: "bool option option"
  u_createdAt :: "nat option"
  u_updatedAt :: "nat option"
  u_comment :: "string option option"
  u_tags :: "string list option option"

record group_updates =
  gu_id :: "string option"
  gu_name :: "string option"
  gu_color :: "string option"
  gu_nodes :: "string list option"

record transform_updates =
  tu_x :: "real option"
  tu_y :: "real option"
  tu_scale :: "real option"

definition or_else :: "'a option \<Rightarrow> 'a \<Rightarrow> 'a" where
  "or_else u v = (case u of None \<Rightarrow> v | Some w \<Rightarrow> w)"

text \<open>The decimal digits of a number, as a template literal prints them.\<close>

definition digit_char :: "nat \<Rightarrow> char" where
  "digit_char d = ''0123456789'' ! d"

function string_of_nat :: "nat \<Rightarrow> string" where
  "string_of_nat n =
     (if n < 10 then [digit_char n]
      else string_of_nat (n div 10) @ [digit_char (n mod 10)])"
  by pat_completeness auto
termination
  by (relation "measure id") auto

declare string_of_nat.simps [simp del]

definition snapshot_of :: "canvas_state \<Rightarrow> snapshot" where
  "snapshot_of s = \<lparr> snap_nodes = nodes s, snap_connections = connections s,
                     snap_groups = groups s \<rparr>"

definition initial_groups :: "node_group list" where
  "initial_groups =
     [ \<lparr> group_id = ''coral'', group_name = ''Coral Group'', group_color = ''#f87171'', group_nodes = [] \<rparr>,
       \<lparr> group_id = ''blue'', group_name = ''Blue Group'', group_color = ''#3b82f6'', group_nodes = [] \<rparr>,
       \<lparr> group_id = ''green'', group_name = ''Green Group'', group_color = ''#10b981'', group_nodes = [] \<rparr> ]"

definition empty_ai :: ai_suggestions where
  "empty_ai = \<lparr> ai_connections = [], groupSummary = None, groupNames = [],
                isLoading = False, ai_error = None \<rparr>"

definition initialState :: canvas_state where
  "initialState =
     \<lparr> canvasName = ''Untitled Canvas'',
       nodes = [],
       connections = [],
       groups = initial_groups,
       transform = \<lparr> t_x = 0, t_y = 0, scale = 1 \<rparr>,
       selectedNodeId = None,
       selectedNodeIds = [],
       selectionBox = \<lparr> startX = 0, startY = 0, endX = 0, endY = 0, isActive = False \<rparr>,
       isDragging = False,
       isConnecting = False,
       connectingFromNodeId = None,
       history = \<lparr> past = [], present = \<lparr> snap_nodes = [], snap_connections = [], snap_groups = [] \<rparr>,
                   future = [] \<rparr>,
       settings = \<lparr> theme = System, username = '''', email = '''' \<rparr>,
       activeTagFilter = None,
       hiddenNodes = {},
       highlightedGroupId = None,
       aiSuggestions = empty_ai \<rparr>"

section \<open>Node, connection and group actions\<close>

text \<open>
  \<^verbatim>\<open>addNode\<close>, \<^verbatim>\<open>duplicateNode\<close>, \<^verbatim>\<open>deleteNode\<close>, \<^verbatim>\<open>deleteNodes\<close> and \<^verbatim>\<open>clearCanvas\<close> end
  with the same three statements on the history: push \<^verbatim>\<open>state.history.present\<close> onto
  \<^verbatim>\<open>past\<close>, store the new collections in \<^verbatim>\<open>present\<close>, empty \<^verbatim>\<open>future\<close>.
\<close>

definition push_present :: "canvas_state \<Rightarrow> canvas_state \<Rightarrow> canvas_state" where
  "push_present state newState =
     newState \<lparr> history :=
       \<lparr> past = past (history state) @ [present (history state)],
         present = snapshot_of newState,
         future = [] \<rparr> \<rparr>"

definition clearCanvas :: "canvas_state \<Rightarrow> canvas_state" where
  "clearCanvas state =
     push_present state (state \<lparr> nodes := [], connections := [], selectedNodeId := None \<rparr>)"

definition new_node :: "nat \<Rightarrow> real \<Rightarrow> real \<Rightarrow> node" where
  "new_node now px py =
     \<lparr> node_id = ''node-'' @ string_of_nat now,
       node_x = px, node_y = py, node_width = 200, node_height = 120,
       node_content = \<lparr> c_type = TextContent,
                        c_value = ''<p style=\"font-size: 14px;\">Double-click to edit</p>'',
                        c_title = None, c_images = None, c_links = None, c_videos = None \<rparr>,
       groupId = None, node_color = ''#ffffff'', selected = False, isNew = Some True,
       createdAt = now, updatedAt = now, comment = None, tags = None \<rparr>"

definition addNode :: "nat \<Rightarrow> real \<Rightarrow> real \<Rightarrow> canvas_state \<Rightarrow> canvas_state" where
  "addNode now px py state =
     push_present state (state \<lparr> nodes := nodes state @ [new_node now px py] \<rparr>)"

definition duplicateNode :: "nat \<Rightarrow> string \<Rightarrow> canvas_state \<Rightarrow> canvas_state" where
  "duplicateNode now i state =
     (case find (\<lambda>n. node_id n = i) (nodes state) of
        None \<Rightarrow> state
      | Some nodeToDuplicate \<Rightarrow>
          push_present state
            (state \<lparr> nodes := nodes state @
               [nodeToDuplicate \<lparr> node_id := ''node-'' @ string_of_nat now,
                                  node_x := node_x nodeToDuplicate + 20,
                                  node_y := node_y nodeToDuplicate + 20,
                                  selected := False, isNew := Some True,
                                  createdAt := now, updatedAt := now \<rparr>] \<rparr>))"

definition apply_updates :: "node_updates \<Rightarrow> node \<Rightarrow> node" where
  "apply_updates u n =
     \<lparr> node_id = or_else (u_id u) (node_id n),
       node_x = or_else (u_x u) (node_x n),
       node_y = or_else (u_y u) (node_y n),
       node_width = or_else (u_width u) (node_width n),
       node_height = or_else (u_height u) (node_height n),
       node_content = or_else (u_content u) (node_content n),
       groupId = or_else (u_groupId u) (groupId n),
       node_color = or_else (u_color u) (node_color n),
       selected = or_else (u_selected u) (selected n),
       isNew = or_else (u_isNew u) (isNew n),
       createdAt = or_else (u_createdAt u) (createdAt n),
       updatedAt = or_else (u_updatedAt u) (updatedAt n),
       comment = or_else (u_comment u) (comment n),
       tags = or_else (u_tags u) (tags n) \<rparr>"

definition updateNode :: "nat \<Rightarrow> string \<Rightarrow> node_updates \<Rightarrow> canvas_state \<Rightarrow> canvas_state" where
  "updateNode now i updates state =
     state \<lparr> nodes := map (\<lambda>n. if node_id n = i
                                then (apply_updates updates n) \<lparr> updatedAt := now \<rparr>
                                else n) (nodes state) \<rparr>"

definition deleteNode :: "string \<Rightarrow> canvas_state \<Rightarrow> canvas_state" where
  "deleteNode i state =
     push_present state
       (state \<lparr> nodes := filter (\<lambda>n. node_id n \<noteq> i) (nodes state),
                connections := filter (\<lambda>c. fromNodeId c \<noteq> i \<and> toNodeId c \<noteq> i) (connections state),
                groups := map (\<lambda>g. g \<lparr> group_nodes := filter (\<lambda>m. m \<noteq> i) (group_nodes g) \<rparr>)
                              (groups state),
                selectedNodeId := (if selectedNodeId state = Some i then None
                                   else selectedNodeId state) \<rparr>)"

definition selectNode :: "string option \<Rightarrow> canvas_state \<Rightarrow> canvas_state" where
  "selectNode i state =
     state \<lparr> selectedNodeId := i,
             selectedNodeIds := (case i of None \<Rightarrow> []
                                 | Some j \<Rightarrow> if j = [] then [] else [j]),
             nodes := map (\<lambda>n. n \<lparr> selected := (Some (node_id n) = i) \<rparr>) (nodes state) \<rparr>"

definition selectMultipleNodes :: "string list \<Rightarrow> canvas_state \<Rightarrow> canvas_state" where
  "selectMultipleNodes ids state =
     state \<lparr> selectedNodeId := None,
             selectedNodeIds := ids,
             nodes := map (\<lambda>n. n \<lparr> selected := (node_id n \<in> set ids) \<rparr>) (nodes state) \<rparr>"

definition clearSelection :: "canvas_state \<Rightarrow> canvas_state" where
  "clearSelection state =
     state \<lparr> selectedNodeId := None,
             selectedNodeIds := [],
             nodes := map (\<lambda>n. n \<lparr> selected := False \<rparr>) (nodes state) \<rparr>"

definition deleteNodes :: "string list \<Rightarrow> canvas_state \<Rightarrow> canvas_state" where
  "deleteNodes ids state =
     push_present state
       (state \<lparr> nodes := filter (\<lambda>n. node_id n \<notin> set ids) (nodes state),
                connections := filter (\<lambda>c. fromNodeId c \<notin> set ids \<and> toNodeId c \<notin> set ids)
                                      (connections state),
                groups := map (\<lambda>g. g \<lparr> group_nodes := filter (\<lambda>m. m \<notin> set ids) (group_nodes g) \<rparr>)
                              (groups state),
                selectedNodeId := None,
                selectedNodeIds := [] \<rparr>)"

definition existingConnection :: "string \<Rightarrow> string \<Rightarrow> canvas_state \<Rightarrow> connection option" where
  "existingConnection a b state =
     find (\<lambda>c. (fromNodeId c = a \<and> toNodeId c = b) \<or> (fromNodeId c = b \<and> toNodeId c = a))
          (connections state)"

definition addConnection ::
  "nat \<Rightarrow> string \<Rightarrow> string \<Rightarrow> string option \<Rightarrow> string option \<Rightarrow> canvas_state \<Rightarrow> canvas_state" where
  "addConnection now a b fp tp state =
     (if a = b then state
      else if existingConnection a b state \<noteq> None then state
      else state \<lparr> connections := connections state @
                      [\<lparr> conn_id = ''conn-'' @ string_of_nat now, fromNodeId = a, toNodeId = b,
                         fromPoint = fp, toPoint = tp, conn_color = ''#000000'' \<rparr>],
                   isConnecting := False,
                   connectingFromNodeId := None \<rparr>)"

definition deleteConnection :: "string \<Rightarrow> canvas_state \<Rightarrow> canvas_state" where
  "deleteConnection i state =
     state \<lparr> connections := filter (\<lambda>c. conn_id c \<noteq> i) (connections state) \<rparr>"

definition addGroup :: "nat \<Rightarrow> string \<Rightarrow> string \<Rightarrow> string list \<Rightarrow> canvas_state \<Rightarrow> canvas_state" where
  "addGroup now name color nodeIds state =
     state \<lparr> groups := groups state @
                [\<lparr> group_id = ''group-'' @ string_of_nat now, group_name = name,
                   group_color = color, group_nodes = nodeIds \<rparr>],
             nodes := map (\<lambda>n. if node_id n \<in> set nodeIds
                                then n \<lparr> groupId := Some (''group-'' @ string_of_nat now) \<rparr>
                                else n) (nodes state) \<rparr>"

definition apply_group_updates :: "group_updates \<Rightarrow> node_group \<Rightarrow> node_group" where
  "apply_group_updates u g =
     \<lparr> group_id = or_else (gu_id u) (group_id g),
       group_name = or_else (gu_name u) (group_name g),
       group_color = or_else (gu_color u) (group_color g),
       group_nodes = or_else (gu_nodes u) (group_nodes g) \<rparr>"

definition updateGroup :: "string \<Rightarrow> group_updates \<Rightarrow> canvas_state \<Rightarrow> canvas_state" where
  "updateGroup i updates state =
     state \<lparr> groups := map (\<lambda>g. if group_id g = i then apply_group_updates updates g else g)
                            (groups state) \<rparr>"

definition deleteGroup :: "string \<Rightarrow> canvas_state \<Rightarrow> canvas_state" where
  "deleteGroup i state =
     state \<lparr> groups := filter (\<lambda>g. group_id g \<noteq> i) (groups state),
             nodes := map (\<lambda>n. if groupId n = Some i then n \<lparr> groupId := None \<rparr> else n)
                           (nodes state) \<rparr>"

text \<open>\<^verbatim>\<open>[...new Set(xs)]\<close>: the first occurrence of every element, in order.\<close>

definition uniq :: "'a list \<Rightarrow> 'a list" where
  "uniq xs = rev (remdups (rev xs))"

definition assignNodesToGroup :: "string list \<Rightarrow> string \<Rightarrow> canvas_state \<Rightarrow> canvas_state" where
  "assignNodesToGroup nodeIds gid state =
     (case find (\<lambda>g. group_id g = gid) (groups state) of
        None \<Rightarrow> state
      | Some _ \<Rightarrow>
          state \<lparr> nodes := map (\<lambda>n. if node_id n \<in> set nodeIds then n \<lparr> groupId := Some gid \<rparr> else n)
                                (nodes state),
                  groups := map (\<lambda>g. if group_id g = gid
                                      then g \<lparr> group_nodes := uniq (group_nodes g @ nodeIds) \<rparr>
                                      else g \<lparr> group_nodes := filter (\<lambda>m. m \<notin> set nodeIds) (group_nodes g) \<rparr>)
                                 (groups state) \<rparr>)"

definition addNodeToGroup :: "string \<Rightarrow> string \<Rightarrow> canvas_state \<Rightarrow> canvas_state" where
  "addNodeToGroup nodeId gid state =
     (case find (\<lambda>g. group_id g = gid) (groups state) of
        None \<Rightarrow> state
      | Some _ \<Rightarrow>
          state \<lparr> nodes := map (\<lambda>n. if node_id n = nodeId then n \<lparr> groupId := Some gid \<rparr> else n)
                                (nodes state),
                  groups := map (\<lambda>g. if group_id g = gid
                                      then g \<lparr> group_nodes := uniq (group_nodes g @ [nodeId]) \<rparr>
                                      else g \<lparr> group_nodes := filter (\<lambda>m. m \<noteq> nodeId) (group_nodes g) \<rparr>)
                                 (groups state) \<rparr>)"

definition removeNodesFromGroups :: "string list \<Rightarrow> canvas_state \<Rightarrow> canvas_state" where
  "removeNodesFromGroups nodeIds state =
     state \<lparr> nodes := map (\<lambda>n. if node_id n \<in> set nodeIds then n \<lparr> groupId := None \<rparr> else n)
                           (nodes state),
             groups := map (\<lambda>g. g \<lparr> group_nodes := filter (\<lambda>m. m \<notin> set nodeIds) (group_nodes g) \<rparr>)
                            (groups state) \<rparr>"

section \<open>History actions\<close>

definition undo :: "canvas_state \<Rightarrow> canvas_state" where
  "undo state =
     (if past (history state) = [] then state
      else
        let previous = last (past (history state));
            newPast = butlast (past (history state))
        in state \<lparr> nodes := snap_nodes previous,
                   connections := snap_connections previous,
                   groups := snap_groups previous,
                   history := \<lparr> past = newPast,
                                present = present (history state),
                                future = present (history state) # future (history state) \<rparr> \<rparr>)"

definition redo :: "canvas_state \<Rightarrow> canvas_state" where
  "redo state =
     (case future (history state) of
        [] \<Rightarrow> state
      | next # newFuture \<Rightarrow>
          state \<lparr> nodes := snap_nodes next,
                  connections := snap_connections next,
                  groups := snap_groups next,
                  history := \<lparr> past = past (history state) @ [present (history state)],
                               present = next,
                               future = newFuture \<rparr> \<rparr>)"

definition saveToHistory :: "canvas_state \<Rightarrow> canvas_state" where
  "saveToHistory state =
     state \<lparr> history := \<lparr> past = past (history state) @ [present (history state)],
                          present = snapshot_of state,
                          future = [] \<rparr> \<rparr>"

section \<open>Transform actions and the wheel handler\<close>

definition setTransform :: "transform_updates \<Rightarrow> canvas_state \<Rightarrow> canvas_state" where
  "setTransform u state =
     state \<lparr> transform := \<lparr> t_x = or_else (tu_x u) (t_x (transform state)),
                            t_y = or_else (tu_y u) (t_y (transform state)),
                            scale = or_else (tu_scale u) (scale (transform state)) \<rparr> \<rparr>"

text \<open>
  \<^verbatim>\<open>fitToScreen\<close> folds \<^verbatim>\<open>Math.min\<close>/\<^verbatim>\<open>Math.max\<close> over all nodes starting from
  plus and minus \<^verbatim>\<open>Infinity\<close>; on the non-empty list it runs on, that is the fold started at the first
  node. A division by zero is \<^verbatim>\<open>Infinity\<close> in the source and \<open>0\<close> here: the content box
  is at least 200 wide and high as soon as no node has a negative size.
\<close>

definition fitToScreen :: "real \<Rightarrow> real \<Rightarrow> canvas_state \<Rightarrow> canvas_state" where
  "fitToScreen cw ch state =
     (case nodes state of
        [] \<Rightarrow> state
      | n # ns \<Rightarrow>
          let padding = 100;
              minX = fold (\<lambda>m acc. min acc (node_x m)) ns (node_x n) - padding;
              minY = fold (\<lambda>m acc. min acc (node_y m)) ns (node_y n) - padding;
              maxX = fold (\<lambda>m acc. max acc (node_x m + node_width m)) ns (node_x n + node_width n) + padding;
              maxY = fold (\<lambda>m acc. max acc (node_y m + node_height m)) ns (node_y n + node_height n) + padding;
              contentWidth = maxX - minX;
              contentHeight = maxY - minY;
              scaleX = cw / contentWidth;
              scaleY = ch / contentHeight;
              sc = min (min scaleX scaleY) 2;
              px = (cw - contentWidth * sc) / 2 - minX * sc;
              py = (ch - contentHeight * sc) / 2 - minY * sc
          in state \<lparr> transform := \<lparr> t_x = px, t_y = py, scale = sc \<rparr> \<rparr>)"

definition zoomIn :: "canvas_state \<Rightarrow> canvas_state" where
  "zoomIn state =
     state \<lparr> transform := (transform state) \<lparr> scale := min (scale (transform state) * 1.2) 3 \<rparr> \<rparr>"

definition zoomOut :: "canvas_state \<Rightarrow> canvas_state" where
  "zoomOut state =
     state \<lparr> transform := (transform state) \<lparr> scale := max (scale (transform state) / 1.2) 0.1 \<rparr> \<rparr>"

definition setDragging :: "bool \<Rightarrow> canvas_state \<Rightarrow> canvas_state" where
  "setDragging d state = state \<lparr> isDragging := d \<rparr>"

definition setConnecting :: "bool \<Rightarrow> string option \<Rightarrow> canvas_state \<Rightarrow> canvas_state" where
  "setConnecting c fromId state =
     state \<lparr> isConnecting := c,
             connectingFromNodeId := (if fromId = Some [] then None else fromId) \<rparr>"

definition startSelectionBox :: "real \<Rightarrow> real \<Rightarrow> canvas_state \<Rightarrow> canvas_state" where
  "startSelectionBox px py state =
     state \<lparr> selectionBox := \<lparr> startX = px, startY = py, endX = px, endY = py, isActive = True \<rparr> \<rparr>"

definition updateSelectionBox :: "real \<Rightarrow> real \<Rightarrow> canvas_state \<Rightarrow> canvas_state" where
  "updateSelectionBox px py state =
     state \<lparr> selectionBox := (selectionBox state) \<lparr> endX := px, endY := py \<rparr> \<rparr>"

definition endSelectionBox :: "canvas_state \<Rightarrow> canvas_state" where
  "endSelectionBox state =
     (let minX = min (startX (selectionBox state)) (endX (selectionBox state));
          minY = min (startY (selectionBox state)) (endY (selectionBox state));
          maxX = max (startX (selectionBox state)) (endX (selectionBox state));
          maxY = max (startY (selectionBox state)) (endY (selectionBox state));
          selectedNodes = filter (\<lambda>n. node_x n < maxX \<and> node_x n + node_width n > minX
                                      \<and> node_y n < maxY \<and> node_y n + node_height n > minY)
                                 (nodes state)
      in state \<lparr> selectionBox := (selectionBox state) \<lparr> isActive := False \<rparr>,
                 selectedNodeIds := map node_id selectedNodes,
                 selectedNodeId := None,
                 nodes := map (\<lambda>n. n \<lparr> selected := (node_id n \<in> set (map node_id selectedNodes)) \<rparr>)
                              (nodes state) \<rparr>)"

text \<open>
  \<^verbatim>\<open>screenToCanvas\<close> and \<^verbatim>\<open>handleWheel\<close> of the canvas component. \<open>rect\<close> is the
  \<^verbatim>\<open>(left, top)\<close> corner of the canvas element's bounding rectangle, \<^term>\<open>None\<close> while the
  element is not mounted. The zoom branch of \<^verbatim>\<open>handleWheel\<close> is \<open>zoomAtPoint\<close>, with
  the factor \<^verbatim>\<open>delta\<close> as an argument; the handler itself only ever passes 0.9 or 1.1.
\<close>

definition screenToCanvas :: "(real \<times> real) option \<Rightarrow> canvas_transform \<Rightarrow> real \<Rightarrow> real \<Rightarrow> real \<times> real" where
  "screenToCanvas rect t screenX screenY =
     (case rect of
        None \<Rightarrow> (0, 0)
      | Some (rleft, rtop) \<Rightarrow>
          ((screenX - rleft - t_x t) / scale t, (screenY - rtop - t_y t) / scale t))"

definition zoomAtPoint :: "real \<Rightarrow> real \<Rightarrow> real \<Rightarrow> canvas_transform \<Rightarrow> transform_updates" where
  "zoomAtPoint delta mouseX mouseY t =
     (let newScale = max 0.1 (min 3 (scale t * delta));
          worldMouseX = (mouseX - t_x t) / scale t;
          worldMouseY = (mouseY - t_y t) / scale t;
          newX = mouseX - worldMouseX * newScale;
          newY = mouseY - worldMouseY * newScale
      in \<lparr> tu_x = Some newX, tu_y = Some newY, tu_scale = Some newScale \<rparr>)"

record wheel_event =
  clientX :: real
  clientY :: real
  deltaX :: real
  deltaY :: real
  ctrlKey :: bool
  metaKey :: bool

definition handleWheel :: "(real \<times> real) option \<Rightarrow> wheel_event \<Rightarrow> canvas_state \<Rightarrow> canvas_state" where
  "handleWheel rect e state =
     (if ctrlKey e \<or> metaKey e then
        (case rect of
           None \<Rightarrow> state
         | Some (rleft, rtop) \<Rightarrow>
             setTransform (zoomAtPoint (if deltaY e > 0 then 0.9 else 1.1)
                             (clientX e - rleft) (clientY e - rtop) (transform state)) state)
      else
        setTransform \<lparr> tu_x = Some (t_x (transform state) - deltaX e),
                       tu_y = Some (t_y (transform state) - deltaY e),
                       tu_scale = None \<rparr> state)"

section \<open>Import\<close>

text \<open>
  \<^verbatim>\<open>importCanvas\<close> receives a string. \<^verbatim>\<open>JSON.parse\<close> and the reading of the parsed value
  are the platform's; their outcome is the input of the model. It is \<open>Throws\<close> when the
  \<^verbatim>\<open>try\<close> block raises before it reaches \<^verbatim>\<open>set\<close>: the text is not JSON, the parsed value
  is \<^verbatim>\<open>null\<close>, \<^verbatim>\<open>nodes\<close> is a value without \<^verbatim>\<open>map\<close> (an object, a number, a string), or
  an element of \<^verbatim>\<open>nodes\<close> is \<^verbatim>\<open>null\<close>. It is \<open>Parsed\<close> with the fields of the parsed
  object otherwise. An imported node may lack its timestamps.
\<close>

record imported_node =
  i_node :: node
  i_createdAt :: "nat option"
  i_updatedAt :: "nat option"

record parsed_canvas =
  p_canvasName :: "string option"
  p_nodes :: "imported_node list option"
  p_connections :: "connection list option"
  p_groups :: "node_group list option"
  p_transform :: "canvas_transform option"

datatype import_input = Throws | Parsed parsed_canvas

definition stamp_or :: "nat option \<Rightarrow> nat \<Rightarrow> nat" where
  "stamp_or t now = (case t of None \<Rightarrow> now | Some v \<Rightarrow> if v = 0 then now else v)"

definition with_timestamps :: "nat \<Rightarrow> imported_node \<Rightarrow> node" where
  "with_timestamps now n =
     (i_node n) \<lparr> createdAt := stamp_or (i_createdAt n) now,
                  updatedAt := stamp_or (i_updatedAt n) now \<rparr>"

definition importCanvas :: "nat \<Rightarrow> import_input \<Rightarrow> canvas_state \<Rightarrow> canvas_state" where
  "importCanvas now inp state =
     (case inp of
        Throws \<Rightarrow> state
      | Parsed parsed \<Rightarrow>
          state \<lparr> canvasName := (case p_canvasName parsed of
                                    None \<Rightarrow> ''Untitled Canvas''
                                  | Some c \<Rightarrow> if c = [] then ''Untitled Canvas'' else c),
                  nodes := map (with_timestamps now) (or_else (p_nodes parsed) []),
                  connections := or_else (p_connections parsed) [],
                  groups := or_else (p_groups parsed) [],
                  transform := or_else (p_transform parsed) \<lparr> t_x = 0, t_y = 0, scale = 1 \<rparr>,
                  selectedNodeId := None,
                  selectedNodeIds := [],
                  highlightedGroupId := None,
                  activeTagFilter := None,
                  hiddenNodes := {},
                  aiSuggestions := empty_ai \<rparr>)"

section \<open>Force-directed layout\<close>

text \<open>
  \<^verbatim>\<open>autoOrganizeNodes\<close>. A JavaScript \<^verbatim>\<open>Map\<close> is an association list in insertion order:
  \<open>map_set\<close> overwrites the value of a key that is present and appends a new key.
  \<^verbatim>\<open>nodePhysics\<close> is keyed by the id each of its values carries, so it is the list of its
  values; the objects the loops mutate are the entries of that list. \<^verbatim>\<open>Math.sqrt\<close> is
  \<^term>\<open>sqrt\<close> and \<^verbatim>\<open>Math.round\<close> rounds half up. The model and the source agree
  wherever the source divides by a non-zero number and takes the root of a non-negative one.
\<close>

record node_physics =
  ph_id :: string
  ph_x :: real
  ph_y :: real
  vx :: real
  vy :: real
  ph_width :: real
  ph_height :: real
  ph_groupId :: "string option"
  mass :: real

record group_center =
  gc_x :: real
  gc_y :: real
  gc_count :: nat

record final_pos =
  f_id :: string
  f_x :: real
  f_y :: real

record simulation =
  nodePhysics :: "node_physics list"
  groupCenters :: "(string \<times> group_center) list"
  iteration :: nat
  converged :: bool

fun map_set :: "'k \<Rightarrow> 'v \<Rightarrow> ('k \<times> 'v) list \<Rightarrow> ('k \<times> 'v) list" where
  "map_set k v [] = [(k, v)]"
| "map_set k v ((k', v') # m) = (if k' = k then (k, v) # m else (k', v') # map_set k v m)"

fun physics_set :: "node_physics \<Rightarrow> node_physics list \<Rightarrow> node_physics list" where
  "physics_set p [] = [p]"
| "physics_set p (q # ps) = (if ph_id q = ph_id p then p # ps else q # physics_set p ps)"

definition physics_get :: "string \<Rightarrow> node_physics list \<Rightarrow> node_physics option" where
  "physics_get i ps = find (\<lambda>p. ph_id p = i) ps"

definition physics_update :: "string \<Rightarrow> (node_physics \<Rightarrow> node_physics) \<Rightarrow> node_physics list \<Rightarrow> node_physics list" where
  "physics_update i f ps = map (\<lambda>p. if ph_id p = i then f p else p) ps"

definition truthy_id :: "string option \<Rightarrow> bool" where
  "truthy_id g = (case g of None \<Rightarrow> False | Some v \<Rightarrow> v \<noteq> [])"

definition REPULSION_STRENGTH :: real where "REPULSION_STRENGTH = 50000"
definition ATTRACTION_STRENGTH :: real where "ATTRACTION_STRENGTH = 0.01"
definition DAMPING :: real where "DAMPING = 0.85"
definition SPRING_LENGTH :: real where "SPRING_LENGTH = 150"
definition GROUP_ATTRACTION :: real where "GROUP_ATTRACTION = 0.005"
definition MAX_ITERATIONS :: nat where "MAX_ITERATIONS = 300"
definition CONVERGENCE_THRESHOLD :: real where "CONVERGENCE_THRESHOLD = 0.5"
definition MAX_VELOCITY :: real where "MAX_VELOCITY = 50"
definition maxOverlapIterations :: nat where "maxOverlapIterations = 50"

definition nodesToOrganize :: "canvas_state \<Rightarrow> node list option" where
  "nodesToOrganize state =
     (if selectedNodeIds state \<noteq> []
      then Some (filter (\<lambda>n. node_id n \<in> set (selectedNodeIds state)) (nodes state))
      else if truthy_id (selectedNodeId state)
      then Some (filter (\<lambda>n. Some (node_id n) = selectedNodeId state) (nodes state))
      else None)"

definition relevantConnections :: "node list \<Rightarrow> connection list \<Rightarrow> connection list" where
  "relevantConnections ns cs =
     filter (\<lambda>c. list_ex (\<lambda>n. node_id n = fromNodeId c) ns
               \<and> list_ex (\<lambda>n. node_id n = toNodeId c) ns) cs"

definition push_by_group :: "node \<Rightarrow> (string option \<times> node list) list \<Rightarrow> (string option \<times> node list) list" where
  "push_by_group n m =
     (case map_of m (groupId n) of
        None \<Rightarrow> map_set (groupId n) [n] m
      | Some ns \<Rightarrow> map_set (groupId n) (ns @ [n]) m)"

definition nodesByGroup :: "node list \<Rightarrow> (string option \<times> node list) list" where
  "nodesByGroup ns = fold push_by_group ns []"

definition init_physics :: "node \<Rightarrow> node_physics" where
  "init_physics n =
     \<lparr> ph_id = node_id n,
       ph_x = node_x n + node_width n / 2,
       ph_y = node_y n + node_height n / 2,
       vx = 0, vy = 0,
       ph_width = node_width n, ph_height = node_height n,
       ph_groupId = groupId n,
       mass = sqrt (node_width n * node_height n) / 10 \<rparr>"

definition init_group_center :: "string option \<times> node list \<Rightarrow> (string \<times> group_center) list \<Rightarrow> (string \<times> group_center) list" where
  "init_group_center e m =
     (case e of (g, groupNodes) \<Rightarrow>
        if truthy_id g \<and> length groupNodes > 1
        then map_set (the g)
               \<lparr> gc_x = foldl (\<lambda>acc n. acc + node_x n + node_width n / 2) 0 groupNodes / real (length groupNodes),
                 gc_y = foldl (\<lambda>acc n. acc + node_y n + node_height n / 2) 0 groupNodes / real (length groupNodes),
                 gc_count = length groupNodes \<rparr> m
        else m)"

definition damp :: "node_physics \<Rightarrow> node_physics" where
  "damp p = p \<lparr> vx := vx p * DAMPING, vy := vy p * DAMPING \<rparr>"

definition repulse_pair :: "nat \<Rightarrow> nat \<Rightarrow> node_physics list \<Rightarrow> node_physics list" where
  "repulse_pair i j ps =
     (let nodeA = ps ! i; nodeB = ps ! j;
          dx = ph_x nodeB - ph_x nodeA;
          dy = ph_y nodeB - ph_y nodeA;
          distance = sqrt (dx * dx + dy * dy)
      in if distance > 0 then
           let minRequiredDistance = (ph_width nodeA + ph_width nodeB) / 2
                                     + (ph_height nodeA + ph_height nodeB) / 2 + 30;
               repulsionForce = (if distance < minRequiredDistance
                                 then REPULSION_STRENGTH / (distance * distance) * 2
                                 else REPULSION_STRENGTH / (distance * distance));
               fx = (dx / distance) * repulsionForce;
               fy = (dy / distance) * repulsionForce
           in ps [ i := nodeA \<lparr> vx := vx nodeA - fx / mass nodeA, vy := vy nodeA - fy / mass nodeA \<rparr>,
                   j := nodeB \<lparr> vx := vx nodeB + fx / mass nodeB, vy := vy nodeB + fy / mass nodeB \<rparr> ]
         else ps)"

definition repulsion :: "node_physics list \<Rightarrow> node_physics list" where
  "repulsion ps =
     fold (\<lambda>i qs. fold (\<lambda>j rs. repulse_pair i j rs) [i + 1 ..< length ps] qs) [0 ..< length ps] ps"

definition spring :: "connection \<Rightarrow> node_physics list \<Rightarrow> node_physics list" where
  "spring c ps =
     (case (physics_get (fromNodeId c) ps, physics_get (toNodeId c) ps) of
        (Some nodeA, Some nodeB) \<Rightarrow>
          let dx = ph_x nodeB - ph_x nodeA;
              dy = ph_y nodeB - ph_y nodeA;
              distance = sqrt (dx * dx + dy * dy)
          in if distance > 0 then
               let springForce = ATTRACTION_STRENGTH * (distance - SPRING_LENGTH);
                   fx = (dx / distance) * springForce;
                   fy = (dy / distance) * springForce
               in physics_update (toNodeId c) (\<lambda>p. p \<lparr> vx := vx p - fx, vy := vy p - fy \<rparr>)
                    (physics_update (fromNodeId c) (\<lambda>p. p \<lparr> vx := vx p + fx, vy := vy p + fy \<rparr>) ps)
             else ps
      | _ \<Rightarrow> ps)"

definition cohere_node :: "group_center \<Rightarrow> node \<Rightarrow> node_physics list \<Rightarrow> node_physics list" where
  "cohere_node groupCenter n ps =
     (case physics_get (node_id n) ps of
        None \<Rightarrow> ps
      | Some physics \<Rightarrow>
          let dx = gc_x groupCenter - ph_x physics;
              dy = gc_y groupCenter - ph_y physics;
              distance = sqrt (dx * dx + dy * dy)
          in if distance > 0 then
               let groupForce = GROUP_ATTRACTION * distance
               in physics_update (node_id n)
                    (\<lambda>p. p \<lparr> vx := vx p + (dx / distance) * groupForce,
                              vy := vy p + (dy / distance) * groupForce \<rparr>) ps
             else ps)"

definition cohesion :: "(string \<times> group_center) list \<Rightarrow> string option \<times> node list \<Rightarrow> node_physics list \<Rightarrow> node_physics list" where
  "cohesion centers e ps =
     (case e of (g, groupNodes) \<Rightarrow>
        if truthy_id g \<and> length groupNodes > 1
        then (case map_of centers (the g) of
                None \<Rightarrow> ps
              | Some groupCenter \<Rightarrow> fold (cohere_node groupCenter) groupNodes ps)
        else ps)"

definition integrate :: "node_physics \<Rightarrow> node_physics" where
  "integrate p =
     (let velocity = sqrt (vx p * vx p + vy p * vy p);
          q = (if velocity > MAX_VELOCITY
               then p \<lparr> vx := (vx p / velocity) * MAX_VELOCITY, vy := (vy p / velocity) * MAX_VELOCITY \<rparr>
               else p)
      in q \<lparr> ph_x := ph_x q + vx q, ph_y := ph_y q + vy q \<rparr>)"

definition totalMovement :: "node_physics list \<Rightarrow> real" where
  "totalMovement ps = foldl (\<lambda>acc p. acc + (\<bar>vx p\<bar> + \<bar>vy p\<bar>)) 0 ps"

definition update_group_center :: "node_physics list \<Rightarrow> string option \<times> node list \<Rightarrow> (string \<times> group_center) list \<Rightarrow> (string \<times> group_center) list" where
  "update_group_center ps e m =
     (case e of (g, groupNodes) \<Rightarrow>
        if truthy_id g \<and> length groupNodes > 1
        then
          let nodePhysicsForGroup = List.map_filter (\<lambda>n. physics_get (node_id n) ps) groupNodes
          in if length nodePhysicsForGroup > 0
             then map_set (the g)
                    \<lparr> gc_x = foldl (\<lambda>acc p. acc + ph_x p) 0 nodePhysicsForGroup / real (length nodePhysicsForGroup),
                      gc_y = foldl (\<lambda>acc p. acc + ph_y p) 0 nodePhysicsForGroup / real (length nodePhysicsForGroup),
                      gc_count = length nodePhysicsForGroup \<rparr> m
             else m
        else m)"

definition sim_step :: "connection list \<Rightarrow> (string option \<times> node list) list \<Rightarrow> simulation \<Rightarrow> simulation" where
  "sim_step conns byGroup st =
     (let damped = map damp (nodePhysics st);
          repelled = repulsion damped;
          sprung = fold spring conns repelled;
          cohered = fold (cohesion (groupCenters st)) byGroup sprung;
          moved = map integrate cohered;
          averageMovement = totalMovement moved / real (length moved)
      in \<lparr> nodePhysics = moved,
           groupCenters = fold (update_group_center moved) byGroup (groupCenters st),
           iteration = iteration st + 1,
           converged = (averageMovement < CONVERGENCE_THRESHOLD) \<rparr>)"

text \<open>The simulation loop: \<open>k\<close> is \<^verbatim>\<open>MAX_ITERATIONS - iteration\<close>, the iterations left.\<close>

fun simulate :: "nat \<Rightarrow> connection list \<Rightarrow> (string option \<times> node list) list \<Rightarrow> simulation \<Rightarrow> simulation" where
  "simulate 0 conns byGroup st = st"
| "simulate (Suc k) conns byGroup st =
     (if converged st then st else simulate k conns byGroup (sim_step conns byGroup st))"

definition to_final :: "node_physics \<Rightarrow> final_pos" where
  "to_final p = \<lparr> f_id = ph_id p, f_x = ph_x p - ph_width p / 2, f_y = ph_y p - ph_height p / 2 \<rparr>"

text \<open>
  One pair of the overlap pass. \<^verbatim>\<open>nodesToOrganize.find\<close> cannot miss: every key of
  \<^verbatim>\<open>finalNodes\<close> is the id of a node of \<^verbatim>\<open>nodesToOrganize\<close>.
\<close>

definition resolve_pair :: "node list \<Rightarrow> nat \<Rightarrow> nat \<Rightarrow> bool \<times> final_pos list \<Rightarrow> bool \<times> final_pos list" where
  "resolve_pair ns i j acc =
     (case acc of (hasOverlaps, fs) \<Rightarrow>
        let posA = fs ! i; posB = fs ! j;
            nodeA = the (find (\<lambda>n. node_id n = f_id posA) ns);
            nodeB = the (find (\<lambda>n. node_id n = f_id posB) ns);
            overlapX = max 0 (min (f_x posA + node_width nodeA) (f_x posB + node_width nodeB)
                              - max (f_x posA) (f_x posB));
            overlapY = max 0 (min (f_y posA + node_height nodeA) (f_y posB + node_height nodeB)
                              - max (f_y posA) (f_y posB))
        in if overlapX > 0 \<and> overlapY > 0 then
             let centerAX = f_x posA + node_width nodeA / 2;
                 centerAY = f_y posA + node_height nodeA / 2;
                 centerBX = f_x posB + node_width nodeB / 2;
                 centerBY = f_y posB + node_height nodeB / 2
             in if overlapX < overlapY then
                  let moveDistance = (overlapX + 20) / 2
                  in if centerAX < centerBX
                     then (True, fs [ i := posA \<lparr> f_x := f_x posA - moveDistance \<rparr>,
                                      j := posB \<lparr> f_x := f_x posB + moveDistance \<rparr> ])
                     else (True, fs [ i := posA \<lparr> f_x := f_x posA + moveDistance \<rparr>,
                                      j := posB \<lparr> f_x := f_x posB - moveDistance \<rparr> ])
                else
                  let moveDistance = (overlapY + 20) / 2
                  in if centerAY < centerBY
                     then (True, fs [ i := posA \<lparr> f_y := f_y posA - moveDistance \<rparr>,
                                      j := posB \<lparr> f_y := f_y posB + moveDistance \<rparr> ])
                     else (True, fs [ i := posA \<lparr> f_y := f_y posA + moveDistance \<rparr>,
                                      j := posB \<lparr> f_y := f_y posB - moveDistance \<rparr> ])
           else (hasOverlaps, fs))"

definition resolve_pass :: "node list \<Rightarrow> final_pos list \<Rightarrow> bool \<times> final_pos list" where
  "resolve_pass ns fs =
     fold (\<lambda>i acc. fold (\<lambda>j acc'. resolve_pair ns i j acc') [i + 1 ..< length fs] acc)
          [0 ..< length fs] (False, fs)"

text \<open>The overlap loop: \<open>k\<close> is the number of passes left of \<^verbatim>\<open>maxOverlapIterations\<close>.\<close>

fun resolve_overlaps :: "nat \<Rightarrow> node list \<Rightarrow> bool \<times> final_pos list \<Rightarrow> bool \<times> final_pos list" where
  "resolve_overlaps 0 ns acc = acc"
| "resolve_overlaps (Suc k) ns acc =
     (if fst acc then resolve_overlaps k ns (resolve_pass ns (snd acc)) else acc)"

definition js_round :: "real \<Rightarrow> real" where
  "js_round v = of_int \<lfloor>v + 1 / 2\<rfloor>"

fun update_first :: "('a \<Rightarrow> bool) \<Rightarrow> ('a \<Rightarrow> 'a) \<Rightarrow> 'a list \<Rightarrow> 'a list" where
  "update_first P f [] = []"
| "update_first P f (x # xs) = (if P x then f x # xs else x # update_first P f xs)"

definition place :: "nat \<Rightarrow> final_pos \<Rightarrow> node list \<Rightarrow> node list" where
  "place now pos organizedNodes =
     update_first (\<lambda>n. node_id n = f_id pos)
       (\<lambda>n. n \<lparr> node_x := js_round (f_x pos), node_y := js_round (f_y pos), updatedAt := now \<rparr>)
       organizedNodes"

definition layout :: "node list \<Rightarrow> connection list \<Rightarrow> final_pos list" where
  "layout ns conns =
     (let byGroup = nodesByGroup ns;
          st = simulate MAX_ITERATIONS (relevantConnections ns conns) byGroup
                 \<lparr> nodePhysics = fold (\<lambda>n ps. physics_set (init_physics n) ps) ns [],
                   groupCenters = fold init_group_center byGroup [],
                   iteration = 0,
                   converged = False \<rparr>
      in snd (resolve_overlaps maxOverlapIterations ns (True, map to_final (nodePhysics st))))"

definition autoOrganizeNodes :: "nat \<Rightarrow> canvas_state \<Rightarrow> canvas_state" where
  "autoOrganizeNodes now state =
     (case nodesToOrganize state of
        None \<Rightarrow> state
      | Some ns \<Rightarrow>
          if ns = [] then state
          else state \<lparr> nodes := fold (place now) (layout ns (connections state)) (nodes state),
                       history := (history state) \<lparr> past := past (history state) @ [snapshot_of state],
                                                    future := [] \<rparr> \<rparr>)"

section \<open>Properties and concrete states used below\<close>

text \<open>The history an action leaves when it commits: the old \<^verbatim>\<open>present\<close> pushed onto
  \<^verbatim>\<open>past\<close>, the new collections in \<^verbatim>\<open>present\<close>, \<^verbatim>\<open>future\<close> emptied.\<close>

definition committed :: "canvas_state \<Rightarrow> canvas_state \<Rightarrow> history" where
  "committed state newState =
     \<lparr> past = past (history state) @ [present (history state)],
       present = snapshot_of newState,
       future = [] \<rparr>"

definition scale_in_bounds :: "canvas_state \<Rightarrow> bool" where
  "scale_in_bounds s = (0.1 \<le> scale (transform s) \<and> scale (transform s) \<le> 3)"

text \<open>Two bounding boxes overlap when they overlap on both axes, as the overlap pass
  and the selection box test it.\<close>

definition boxes_overlap :: "node \<Rightarrow> node \<Rightarrow> bool" where
  "boxes_overlap a b =
     (max 0 (min (node_x a + node_width a) (node_x b + node_width b) - max (node_x a) (node_x b)) > 0
      \<and> max 0 (min (node_y a + node_height a) (node_y b + node_height b) - max (node_y a) (node_y b)) > 0)"





text \<open>The pairs (id, groupId) and the ids of the nodes of a state.\<close>

definition node_key :: "node \<Rightarrow> string \<times> string option" where
  "node_key n = (node_id n, groupId n)"

definition keys :: "canvas_state \<Rightarrow> (string \<times> string option) set" where
  "keys s = node_key ` set (nodes s)"

definition node_ids :: "canvas_state \<Rightarrow> string set" where
  "node_ids s = node_id ` set (nodes s)"

text \<open>The store actions that write nodes, connections or groups one entity at a time,
  as values, and the action each one names.\<close>

datatype action =
    AddNode nat real real
  | DuplicateNode nat string
  | UpdateNode nat string node_updates
  | DeleteNode string
  | DeleteNodes "string list"
  | SelectNode "string option"
  | SelectMultipleNodes "string list"
  | ClearSelection
  | AddConnection nat string string "string option" "string option"
  | DeleteConnection string
  | AddGroup nat string string "string list"
  | UpdateGroup string group_updates
  | DeleteGroup string
  | AssignNodesToGroup "string list" string
  | AddNodeToGroup string string
  | RemoveNodesFromGroups "string list"

fun perform :: "action \<Rightarrow> canvas_state \<Rightarrow> canvas_state" where
  "perform (AddNode now px py) s = addNode now px py s"
| "perform (DuplicateNode now i) s = duplicateNode now i s"
| "perform (UpdateNode now i u) s = updateNode now i u s"
| "perform (DeleteNode i) s = deleteNode i s"
| "perform (DeleteNodes ids) s = deleteNodes ids s"
| "perform (SelectNode i) s = selectNode i s"
| "perform (SelectMultipleNodes ids) s = selectMultipleNodes ids s"
| "perform ClearSelection s = clearSelection s"
| "perform (AddConnection now a b fp tp) s = addConnection now a b fp tp s"
| "perform (DeleteConnection i) s = deleteConnection i s"
| "perform (AddGroup now name color ids) s = addGroup now name color ids s"
| "perform (UpdateGroup i u) s = updateGroup i u s"
| "perform (DeleteGroup i) s = deleteGroup i s"
| "perform (AssignNodesToGroup ids g) s = assignNodesToGroup ids g s"
| "perform (AddNodeToGroup i g) s = addNodeToGroup i g s"
| "perform (RemoveNodesFromGroups ids) s = removeNodesFromGroups ids s"


text \<open>Running a list of actions, and the actions of the list that commit to the history
  the way \<^verbatim>\<open>addNode\<close> does.\<close>

fun run :: "action list \<Rightarrow> canvas_state \<Rightarrow> canvas_state" where
  "run [] s = s"
| "run (a # as) s = run as (perform a s)"

fun commits :: "action \<Rightarrow> bool" where
  "commits (AddNode now px py) = True"
| "commits (DeleteNode i) = True"
| "commits (DeleteNodes ids) = True"
| "commits _ = False"

text \<open>Two nodes added one after the other to the initial canvas.\<close>

definition two_nodes :: canvas_state where
  "two_nodes = addNode 200 10 10 (addNode 100 0 0 initialState)"

definition no_updates :: node_updates where
  "no_updates =
     \<lparr> u_id = None, u_x = None, u_y = None, u_width = None, u_height = None, u_content = None,
       u_groupId = None, u_color = None, u_selected = None, u_isNew = None, u_createdAt = None,
       u_updatedAt = None, u_comment = None, u_tags = None \<rparr>"

text \<open>
  A tall node (200 by 14000) and a node of the default size (200 by 120) with the same
  centre (100, 7000), both selected: the first is added and resized, the second added at
  (0, 6940), then both are selected.
\<close>

definition stacked :: canvas_state where
  "stacked =
     selectMultipleNodes [''node-100'', ''node-200'']
       (addNode 200 0 6940
          (updateNode 150 ''node-100'' (no_updates \<lparr> u_height := Some 14000 \<rparr>)
             (addNode 100 0 0 initialState)))"

definition tall :: node where
  "tall = (new_node 100 0 0) \<lparr> node_height := 14000, updatedAt := 150, selected := True \<rparr>"

definition small :: node where
  "small = (new_node 200 0 6940) \<lparr> selected := True \<rparr>"

text \<open>Their physics before the first iteration, and their top-left corners during the
  overlap pass: both at \<open>x = 0\<close>, the tall one at \<open>y = a\<close>, the small one at \<open>y = b\<close>.\<close>

definition ph0 :: "node_physics list" where
  "ph0 = [init_physics tall, init_physics small]"

definition pos :: "real \<Rightarrow> real \<Rightarrow> final_pos list" where
  "pos a b = [\<lparr> f_id = ''node-100'', f_x = 0, f_y = a \<rparr>, \<lparr> f_id = ''node-200'', f_x = 0, f_y = b \<rparr>]"

text \<open>A parsed import whose only connection names two nodes that do not exist.\<close>

definition dangling_import :: parsed_canvas where
  "dangling_import =
     \<lparr> p_canvasName = Some ''broken'',
       p_nodes = Some [],
       p_connections = Some [\<lparr> conn_id = ''conn-1'', fromNodeId = ''ghost-a'', toNodeId = ''ghost-b'',
                                fromPoint = None, toPoint = None, conn_color = ''#000000'' \<rparr>],
       p_groups = Some [],
       p_transform = None \<rparr>"

section \<open>What each action writes\<close>

lemma nodes_push [simp]: "nodes (push_present s t) = nodes t"
  and connections_push [simp]: "connections (push_present s t) = connections t"
  and groups_push [simp]: "groups (push_present s t) = groups t"
  and transform_push [simp]: "transform (push_present s t) = transform t"
  and history_push: "history (push_present s t) = committed s (push_present s t)"
  by (simp_all add: push_present_def committed_def snapshot_of_def)

lemma initialState_fields:
  "nodes initialState = []"
  "connections initialState = []"
  "groups initialState = initial_groups"
  "transform initialState = \<lparr> t_x = 0, t_y = 0, scale = 1 \<rparr>"
  "history initialState =
     \<lparr> past = [], present = \<lparr> snap_nodes = [], snap_connections = [], snap_groups = [] \<rparr>,
       future = [] \<rparr>"
  "selectedNodeIds initialState = []"
  "selectedNodeId initialState = None"
  by (simp_all add: initialState_def)

lemma addNode_fields:
  "nodes (addNode now px py s) = nodes s @ [new_node now px py]"
  "connections (addNode now px py s) = connections s"
  "groups (addNode now px py s) = groups s"
  "transform (addNode now px py s) = transform s"
  "history (addNode now px py s) = committed s (addNode now px py s)"
  unfolding addNode_def by (simp_all add: history_push)

lemma deleteNode_history: "history (deleteNode i s) = committed s (deleteNode i s)"
  unfolding deleteNode_def by (simp add: history_push)

lemma deleteNodes_history: "history (deleteNodes ids s) = committed s (deleteNodes ids s)"
  unfolding deleteNodes_def by (simp add: history_push)

lemma clearCanvas_history: "history (clearCanvas s) = committed s (clearCanvas s)"
  unfolding clearCanvas_def by (simp add: history_push)

lemma duplicateNode_history:
  "history (duplicateNode now i s) =
     (if find (\<lambda>n. node_id n = i) (nodes s) = None then history s
      else committed s (duplicateNode now i s))"
  unfolding duplicateNode_def by (simp add: history_push split: option.split)

lemma updateNode_fields:
  "nodes (updateNode now i u s) =
     map (\<lambda>n. if node_id n = i then (apply_updates u n) \<lparr> updatedAt := now \<rparr> else n) (nodes s)"
  "connections (updateNode now i u s) = connections s"
  "groups (updateNode now i u s) = groups s"
  "history (updateNode now i u s) = history s"
  by (simp_all add: updateNode_def)

lemma selectMultipleNodes_fields:
  "nodes (selectMultipleNodes ids s) = map (\<lambda>n. n \<lparr> selected := (node_id n \<in> set ids) \<rparr>) (nodes s)"
  "connections (selectMultipleNodes ids s) = connections s"
  "groups (selectMultipleNodes ids s) = groups s"
  "selectedNodeIds (selectMultipleNodes ids s) = ids"
  "history (selectMultipleNodes ids s) = history s"
  by (simp_all add: selectMultipleNodes_def)

lemma selection_history:
  "history (selectNode j s) = history s"
  "history (clearSelection s) = history s"
  "history (startSelectionBox px py s) = history s"
  "history (updateSelectionBox px py s) = history s"
  "history (endSelectionBox s) = history s"
  by (simp_all add: selectNode_def clearSelection_def startSelectionBox_def
        updateSelectionBox_def endSelectionBox_def Let_def)

lemma transform_history:
  "history (setTransform tu s) = history s"
  "history (fitToScreen cw ch s) = history s"
  "history (zoomIn s) = history s"
  "history (zoomOut s) = history s"
  "history (setDragging d s) = history s"
  "history (setConnecting c f s) = history s"
  by (simp_all add: setTransform_def fitToScreen_def zoomIn_def zoomOut_def setDragging_def
        setConnecting_def Let_def split: list.split)

lemma string_of_small: "string_of_nat 100 = ''100''" "string_of_nat 200 = ''200''"
  by (simp_all add: string_of_nat.simps digit_char_def)

lemma two_nodes_fields:
  "nodes two_nodes = [new_node 100 0 0, new_node 200 10 10]"
  "connections two_nodes = []"
  "past (history two_nodes) = [present (history initialState), snapshot_of (addNode 100 0 0 initialState)]"
  "present (history two_nodes) = snapshot_of two_nodes"
  unfolding two_nodes_def
  by (simp_all add: addNode_fields committed_def initialState_fields)

lemma undo_fields:
  "past (history s) \<noteq> [] \<Longrightarrow> nodes (undo s) = snap_nodes (last (past (history s)))"
  "past (history s) \<noteq> [] \<Longrightarrow> connections (undo s) = snap_connections (last (past (history s)))"
  "past (history s) \<noteq> [] \<Longrightarrow> groups (undo s) = snap_groups (last (past (history s)))"
  "past (history s) \<noteq> [] \<Longrightarrow> history (undo s) =
     \<lparr> past = butlast (past (history s)), present = present (history s),
       future = present (history s) # future (history s) \<rparr>"
  by (simp_all add: undo_def Let_def)

lemma undo_empty: "past (history s) = [] \<Longrightarrow> undo s = s"
  by (simp add: undo_def)

lemma redo_fields:
  "future (history s) = n # f \<Longrightarrow> nodes (redo s) = snap_nodes n"
  "future (history s) = n # f \<Longrightarrow> connections (redo s) = snap_connections n"
  "future (history s) = n # f \<Longrightarrow> groups (redo s) = snap_groups n"
  "future (history s) = n # f \<Longrightarrow> history (redo s) =
     \<lparr> past = past (history s) @ [present (history s)], present = n, future = f \<rparr>"
  by (simp_all add: redo_def)

lemma redo_empty: "future (history s) = [] \<Longrightarrow> redo s = s"
  by (simp add: redo_def)

section \<open>History: what commits, and what undo and redo touch\<close>

text \<open>
  C10. Undo and redo write the nodes, the connections, the groups and the history, and
  nothing else: the state after either is the state before with those four fields
  replaced. So the transform, both selection fields, the selection box, the canvas name
  and the settings are the same after as before, and so are the dragging and connecting
  flags, the node a connection is being drawn from, the tag filter, the hidden nodes, the
  highlighted group and the suggestions, whatever the state.
\<close>

theorem undo_redo_frame:
  "undo s = s \<lparr> nodes := nodes (undo s), connections := connections (undo s),
                groups := groups (undo s), history := history (undo s) \<rparr>
   \<and> redo s = s \<lparr> nodes := nodes (redo s), connections := connections (redo s),
                  groups := groups (redo s), history := history (redo s) \<rparr>
   \<and> transform (undo s) = transform s \<and> selectedNodeId (undo s) = selectedNodeId s
   \<and> selectedNodeIds (undo s) = selectedNodeIds s \<and> selectionBox (undo s) = selectionBox s
   \<and> canvasName (undo s) = canvasName s \<and> settings (undo s) = settings s
   \<and> isDragging (undo s) = isDragging s \<and> isConnecting (undo s) = isConnecting s
   \<and> connectingFromNodeId (undo s) = connectingFromNodeId s
   \<and> activeTagFilter (undo s) = activeTagFilter s \<and> hiddenNodes (undo s) = hiddenNodes s
   \<and> highlightedGroupId (undo s) = highlightedGroupId s
   \<and> aiSuggestions (undo s) = aiSuggestions s
   \<and> transform (redo s) = transform s \<and> selectedNodeId (redo s) = selectedNodeId s
   \<and> selectedNodeIds (redo s) = selectedNodeIds s \<and> selectionBox (redo s) = selectionBox s
   \<and> canvasName (redo s) = canvasName s \<and> settings (redo s) = settings s
   \<and> isDragging (redo s) = isDragging s \<and> isConnecting (redo s) = isConnecting s
   \<and> connectingFromNodeId (redo s) = connectingFromNodeId s
   \<and> activeTagFilter (redo s) = activeTagFilter s \<and> hiddenNodes (redo s) = hiddenNodes s
   \<and> highlightedGroupId (redo s) = highlightedGroupId s
   \<and> aiSuggestions (redo s) = aiSuggestions s"
  by (simp add: undo_def redo_def Let_def split: list.split)

text \<open>
  C2. After two nodes are added, the past is not empty and undo makes the live nodes equal
  the snapshot on top of the past; but \<^verbatim>\<open>history.present\<close> is left as it was, so it is
  neither the popped snapshot nor the live collections. (Redo does store the snapshot it
  restores in \<^verbatim>\<open>present\<close>.)
\<close>

theorem undo_present_stale:
  "past (history two_nodes) \<noteq> []
   \<and> nodes (undo two_nodes) = snap_nodes (last (past (history two_nodes)))
   \<and> nodes (undo two_nodes) = [new_node 100 0 0]
   \<and> snap_nodes (present (history (undo two_nodes))) = [new_node 100 0 0, new_node 200 10 10]
   \<and> present (history (undo two_nodes)) \<noteq> last (past (history two_nodes))
   \<and> present (history (undo two_nodes)) \<noteq> snapshot_of (undo two_nodes)"
proof -
  have p: "past (history two_nodes) \<noteq> []" by (simp add: two_nodes_fields)
  show ?thesis
    by (simp add: undo_fields [OF p] two_nodes_fields)
       (simp add: snapshot_of_def addNode_fields undo_fields [OF p] two_nodes_fields
          initialState_fields)
qed

text \<open>
  C1, as the code has it. \<^verbatim>\<open>addNode\<close>, \<^verbatim>\<open>deleteNode\<close>, \<^verbatim>\<open>deleteNodes\<close>, \<^verbatim>\<open>clearCanvas\<close>
  and \<^verbatim>\<open>duplicateNode\<close> of an existing node push one snapshot, the old
  \<^verbatim>\<open>history.present\<close>, onto the past, store the new collections in \<^verbatim>\<open>present\<close> and empty
  the future. \<^verbatim>\<open>updateNode\<close>, which the node component calls on every move of a drag, the
  selection actions, the transform actions, the dragging and connecting flags and the
  selection box leave the history as it is.
\<close>

theorem history_commits:
  "history (addNode now px py s) = committed s (addNode now px py s)
   \<and> history (deleteNode i s) = committed s (deleteNode i s)
   \<and> history (deleteNodes ids s) = committed s (deleteNodes ids s)
   \<and> history (clearCanvas s) = committed s (clearCanvas s)
   \<and> history (duplicateNode now i s) =
        (if find (\<lambda>n. node_id n = i) (nodes s) = None then history s
         else committed s (duplicateNode now i s))
   \<and> history (updateNode now i u s) = history s
   \<and> history (selectNode j s) = history s
   \<and> history (selectMultipleNodes ids s) = history s
   \<and> history (clearSelection s) = history s
   \<and> history (setTransform tu s) = history s
   \<and> history (fitToScreen cw ch s) = history s
   \<and> history (zoomIn s) = history s
   \<and> history (zoomOut s) = history s
   \<and> history (setDragging d s) = history s
   \<and> history (setConnecting c f s) = history s
   \<and> history (startSelectionBox px py s) = history s
   \<and> history (updateSelectionBox px py s) = history s
   \<and> history (endSelectionBox s) = history s"
  by (simp add: addNode_fields deleteNode_history deleteNodes_history clearCanvas_history
        duplicateNode_history updateNode_fields selectMultipleNodes_fields selection_history
        transform_history)

text \<open>
  C1, as the specification states it, fails: moving the one node of a canvas with
  \<^verbatim>\<open>updateNode\<close> changes the nodes and leaves the history untouched.
\<close>

theorem updateNode_history_counterexample:
  "nodes (updateNode 150 ''node-100'' (no_updates \<lparr> u_x := Some 5 \<rparr>) (addNode 100 0 0 initialState))
     \<noteq> nodes (addNode 100 0 0 initialState)
   \<and> history (updateNode 150 ''node-100'' (no_updates \<lparr> u_x := Some 5 \<rparr>) (addNode 100 0 0 initialState))
     = history (addNode 100 0 0 initialState)"
  by (simp add: updateNode_fields addNode_fields initialState_fields)
     (simp add: new_node_def apply_updates_def no_updates_def or_else_def string_of_small)

section \<open>Connections\<close>

text \<open>
  C4. \<^verbatim>\<open>addConnection\<close> from a node to itself leaves the connections as they are; when a
  connection already joins \<open>a\<close> and \<open>b\<close> in either direction, adding one from \<open>a\<close> to \<open>b\<close>
  or from \<open>b\<close> to \<open>a\<close> leaves them as they are; and after \<open>addConnection a b\<close>, adding
  \<open>b\<close> to \<open>a\<close> does not change their number.
\<close>

theorem addConnection_rejects:
  "connections (addConnection now a a fp tp s) = connections s
   \<and> ((\<exists>c \<in> set (connections s). (fromNodeId c = a \<and> toNodeId c = b)
                                  \<or> (fromNodeId c = b \<and> toNodeId c = a))
        \<longrightarrow> connections (addConnection now a b fp tp s) = connections s
          \<and> connections (addConnection now b a fp tp s) = connections s)
   \<and> length (connections (addConnection now' b a fp' tp' (addConnection now a b fp tp s)))
       = length (connections (addConnection now a b fp tp s))"
  by (auto simp add: addConnection_def existingConnection_def find_None_iff)

theorem addConnection_rejects_witness:
  "(\<exists>c \<in> set (connections (addConnection 300 ''node-100'' ''node-200'' None None two_nodes)).
       (fromNodeId c = ''node-200'' \<and> toNodeId c = ''node-100'')
     \<or> (fromNodeId c = ''node-100'' \<and> toNodeId c = ''node-200''))
   \<and> connections (addConnection 400 ''node-200'' ''node-100'' None None
         (addConnection 300 ''node-100'' ''node-200'' None None two_nodes))
       = connections (addConnection 300 ''node-100'' ''node-200'' None None two_nodes)
   \<and> length (connections (addConnection 300 ''node-100'' ''node-200'' None None two_nodes)) = 1"
proof -
  have c: "connections two_nodes = []"
    by (simp add: two_nodes_fields)
  have h: "\<exists>c \<in> set (connections (addConnection 300 ''node-100'' ''node-200'' None None two_nodes)).
       (fromNodeId c = ''node-200'' \<and> toNodeId c = ''node-100'')
     \<or> (fromNodeId c = ''node-100'' \<and> toNodeId c = ''node-200'')"
    by (simp add: addConnection_def existingConnection_def c)
  have l: "length (connections (addConnection 300 ''node-100'' ''node-200'' None None two_nodes)) = 1"
    by (simp add: addConnection_def existingConnection_def c)
  show ?thesis
    using h l addConnection_rejects [of 400 "''node-200''" None None
        "addConnection 300 ''node-100'' ''node-200'' None None two_nodes" "''node-100''"]
    by blast
qed

section \<open>Transform\<close>

text \<open>
  C6. For a transform whose scale is within [0.1, 3], any point of the screen and any zoom
  factor, the zoom branch of the wheel handler writes a transform under which the point
  maps to the same canvas coordinates as before, also when the new scale is clamped; so
  does the handler itself on a wheel event with the control or meta key. Numbers are
  reals, so the coordinates are equal exactly.
\<close>

theorem zoom_keeps_world_point:
  assumes "0.1 \<le> scale (transform s)" "scale (transform s) \<le> 3"
  shows "screenToCanvas (Some (rl, rt))
           (transform (setTransform (zoomAtPoint f (px - rl) (py - rt) (transform s)) s)) px py
         = screenToCanvas (Some (rl, rt)) (transform s) px py
       \<and> (ctrlKey e \<or> metaKey e \<longrightarrow>
            screenToCanvas rect (transform (handleWheel rect e s)) (clientX e) (clientY e)
            = screenToCanvas rect (transform s) (clientX e) (clientY e))"
  using assms
  by (auto simp add: screenToCanvas_def setTransform_def zoomAtPoint_def handleWheel_def
        Let_def or_else_def split: option.split)

theorem zoom_keeps_world_point_witness:
  "0.1 \<le> scale (transform initialState) \<and> scale (transform initialState) \<le> 3
   \<and> screenToCanvas (Some (0, 0))
        (transform (setTransform (zoomAtPoint 5 (40 - 0) (30 - 0) (transform initialState)) initialState))
        40 30 = (40, 30)
   \<and> scale (transform (setTransform (zoomAtPoint 5 (40 - 0) (30 - 0) (transform initialState)) initialState)) = 3"
proof -
  have h: "0.1 \<le> scale (transform initialState)" "scale (transform initialState) \<le> 3"
    by (simp_all add: initialState_def)
  have w: "screenToCanvas (Some (0, 0)) (transform initialState) 40 30 = (40, 30)"
    by (simp add: screenToCanvas_def initialState_def)
  have c: "scale (transform (setTransform (zoomAtPoint 5 (40 - 0) (30 - 0) (transform initialState)) initialState)) = 3"
    by (simp add: setTransform_def zoomAtPoint_def initialState_def or_else_def Let_def)
  show ?thesis
    using h w c zoom_keeps_world_point [OF h, of 0 0 5 40 30] by simp
qed

lemma zoomIn_scale: "scale (transform (zoomIn s)) = min (scale (transform s) * 1.2) 3"
  by (simp add: zoomIn_def)

lemma zoomOut_scale: "scale (transform (zoomOut s)) = max (scale (transform s) / 1.2) 0.1"
  by (simp add: zoomOut_def)

lemma handleWheel_scale:
  "scale (transform (handleWheel rect e s)) =
     (if (ctrlKey e \<or> metaKey e) \<and> rect \<noteq> None
      then max 0.1 (min 3 (scale (transform s) * (if deltaY e > 0 then 0.9 else 1.1)))
      else scale (transform s))"
  by (cases rect) (auto simp add: handleWheel_def setTransform_def zoomAtPoint_def or_else_def Let_def)

lemma fitToScreen_scale:
  assumes "nodes s = n # ns"
  shows "scale (transform (fitToScreen cw ch s)) \<le> 2"
  by (simp add: fitToScreen_def assms Let_def)

text \<open>
  C7, as the specification states it, fails: \<^verbatim>\<open>setTransform\<close> stores a scale of 5 as it
  is given, and \<^verbatim>\<open>fitToScreen\<close> on a 1000 by 800 viewport with two nodes 20000 apart
  chooses a scale below 0.1.
\<close>

theorem scale_bound_counterexample:
  "scale_in_bounds initialState
   \<and> \<not> scale_in_bounds (setTransform \<lparr> tu_x = None, tu_y = None, tu_scale = Some 5 \<rparr> initialState)
   \<and> \<not> scale_in_bounds (fitToScreen 1000 800 (addNode 200 20000 0 (addNode 100 0 0 initialState)))"
proof -
  have n: "nodes (addNode 200 20000 0 (addNode 100 0 0 initialState))
           = [new_node 100 0 0, new_node 200 20000 0]"
    by (simp add: addNode_fields initialState_fields)
  have "scale (transform (fitToScreen 1000 800 (addNode 200 20000 0 (addNode 100 0 0 initialState)))) < 0.1"
    by (simp add: fitToScreen_def n Let_def new_node_def)
  then show ?thesis
    by (simp add: scale_in_bounds_def)
       (simp add: setTransform_def initialState_def or_else_def)
qed

text \<open>
  C7, as the code has it. From a scale within [0.1, 3], \<^verbatim>\<open>zoomIn\<close>, \<^verbatim>\<open>zoomOut\<close> and the
  wheel handler (zooming at the pointer or panning) leave a scale within [0.1, 3], and
  \<^verbatim>\<open>fitToScreen\<close> leaves one of at most 3 (it caps the scale at 2 and has no lower bound).
\<close>

theorem zoom_scale_bounded:
  assumes "scale_in_bounds s"
  shows "scale_in_bounds (zoomIn s) \<and> scale_in_bounds (zoomOut s)
         \<and> scale_in_bounds (handleWheel rect e s)
         \<and> scale (transform (fitToScreen cw ch s)) \<le> 3"
proof -
  have b: "0.1 \<le> scale (transform s)" "scale (transform s) \<le> 3"
    using assms by (simp_all add: scale_in_bounds_def)
  have "scale (transform (fitToScreen cw ch s)) \<le> 3"
  proof (cases "nodes s")
    case Nil
    then show ?thesis using b by (simp add: fitToScreen_def)
  next
    case (Cons n ns)
    then have "scale (transform (fitToScreen cw ch s)) \<le> 2" by (rule fitToScreen_scale)
    then show ?thesis by simp
  qed
  moreover have "scale_in_bounds (zoomIn s)" "scale_in_bounds (zoomOut s)"
    using b by (simp_all add: scale_in_bounds_def zoomIn_scale zoomOut_scale)
  moreover have "scale_in_bounds (handleWheel rect e s)"
    using b unfolding scale_in_bounds_def handleWheel_scale by (auto simp: max_def min_def)
  ultimately show ?thesis by simp
qed

theorem zoom_scale_bounded_witness:
  "scale_in_bounds initialState \<and> scale_in_bounds (zoomIn initialState)
   \<and> scale_in_bounds (zoomOut initialState)
   \<and> scale_in_bounds (handleWheel (Some (0, 0))
        \<lparr> clientX = 10, clientY = 10, deltaX = 0, deltaY = 1, ctrlKey = True, metaKey = False \<rparr>
        initialState)
   \<and> scale (transform (fitToScreen 1000 800 initialState)) \<le> 3"
proof -
  have h: "scale_in_bounds initialState"
    by (simp add: scale_in_bounds_def initialState_def)
  show ?thesis using h zoom_scale_bounded [OF h] by simp
qed

section \<open>Import\<close>

text \<open>
  C9, as the specification states it, fails: an import whose only connection joins two
  ids that name no node is accepted, and replaces the connections and the groups of the
  canvas.
\<close>

theorem importCanvas_accepts_dangling:
  "nodes (importCanvas 100 (Parsed dangling_import) initialState) = []
   \<and> map fromNodeId (connections (importCanvas 100 (Parsed dangling_import) initialState)) = [''ghost-a'']
   \<and> connections (importCanvas 100 (Parsed dangling_import) initialState) \<noteq> connections initialState
   \<and> groups (importCanvas 100 (Parsed dangling_import) initialState) \<noteq> groups initialState"
  by (simp add: importCanvas_def dangling_import_def initialState_def or_else_def initial_groups_def)

text \<open>
  C9, as the code has it. When the \<^verbatim>\<open>try\<close> block throws before it writes the store, the
  whole state is left as it is. In every other case the canvas name, the nodes, the
  connections, the groups and the transform are replaced with the parsed ones, absent
  fields defaulted and missing timestamps set to the time of the import; the selection,
  the tag filter, the hidden nodes, the highlighted group and the suggestions are
  cleared; and the history is kept. Nothing compares the ends of the parsed connections
  or the members of the parsed groups with the parsed nodes.
\<close>

theorem importCanvas_replaces:
  "importCanvas now Throws s = s
   \<and> canvasName (importCanvas now (Parsed p) s) =
        (case p_canvasName p of None \<Rightarrow> ''Untitled Canvas''
         | Some c \<Rightarrow> if c = [] then ''Untitled Canvas'' else c)
   \<and> nodes (importCanvas now (Parsed p) s) = map (with_timestamps now) (or_else (p_nodes p) [])
   \<and> connections (importCanvas now (Parsed p) s) = or_else (p_connections p) []
   \<and> groups (importCanvas now (Parsed p) s) = or_else (p_groups p) []
   \<and> transform (importCanvas now (Parsed p) s) = or_else (p_transform p) \<lparr> t_x = 0, t_y = 0, scale = 1 \<rparr>
   \<and> selectedNodeId (importCanvas now (Parsed p) s) = None
   \<and> selectedNodeIds (importCanvas now (Parsed p) s) = []
   \<and> activeTagFilter (importCanvas now (Parsed p) s) = None
   \<and> hiddenNodes (importCanvas now (Parsed p) s) = {}
   \<and> highlightedGroupId (importCanvas now (Parsed p) s) = None
   \<and> aiSuggestions (importCanvas now (Parsed p) s) = empty_ai
   \<and> history (importCanvas now (Parsed p) s) = history s
   \<and> settings (importCanvas now (Parsed p) s) = settings s"
  by (simp add: importCanvas_def)

section \<open>Referential integrity\<close>







lemma keys_ids: "(i, g) \<in> keys s \<Longrightarrow> i \<in> node_ids s"
  by (force simp: keys_def node_ids_def node_key_def)





















lemma set_uniq [simp]: "set (uniq xs) = set xs"
  by (simp add: uniq_def)









section \<open>Undo and redo, repeated\<close>

lemma undo_iter:
  "k \<le> length (past (history s)) \<Longrightarrow>
   history ((undo ^^ k) s) =
     \<lparr> past = take (length (past (history s)) - k) (past (history s)),
       present = present (history s),
       future = replicate k (present (history s)) @ future (history s) \<rparr>"
proof (induction k)
  case 0
  then show ?case by simp
next
  case (Suc k)
  let ?t = "(undo ^^ k) s"
  have h: "history ?t =
     \<lparr> past = take (length (past (history s)) - k) (past (history s)),
       present = present (history s),
       future = replicate k (present (history s)) @ future (history s) \<rparr>"
    using Suc by simp
  have ne: "past (history ?t) \<noteq> []" using Suc.prems by (auto simp add: h)
  have "butlast (take (length (past (history s)) - k) (past (history s)))
        = take (length (past (history s)) - Suc k) (past (history s))"
    using Suc.prems by (simp add: butlast_take)
  then show ?case
    by (simp add: undo_fields(4) [OF ne] h replicate_app_Cons_same)
qed

lemma redo_iter:
  "future (history s) = replicate k p @ f \<Longrightarrow> present (history s) = p \<Longrightarrow>
   history ((redo ^^ k) s) =
     \<lparr> past = past (history s) @ replicate k p, present = p, future = f \<rparr>
   \<and> (0 < k \<longrightarrow> snapshot_of ((redo ^^ k) s) = p)"
proof (induction k arbitrary: s)
  case 0
  then show ?case by simp
next
  case (Suc k)
  have f: "future (history s) = p # (replicate k p @ f)" using Suc.prems by simp
  have 1: "future (history (redo s)) = replicate k p @ f" "present (history (redo s)) = p"
    "past (history (redo s)) = past (history s) @ [p]"
    by (simp_all add: redo_fields(4) [OF f] Suc.prems)
  have live: "snapshot_of (redo s) = p"
    by (simp add: snapshot_of_def redo_fields(1-3) [OF f])
  have step: "(redo ^^ Suc k) s = (redo ^^ k) (redo s)" by (simp add: funpow_swap1)
  from Suc.IH [OF 1(1,2)] show ?case
    unfolding step using live by (cases k) (simp_all add: 1 replicate_append_same)
qed

lemma undo_redo_restores_present:
  assumes "0 < k" "k \<le> length (past (history s))"
  shows "snapshot_of ((redo ^^ k) ((undo ^^ k) s)) = present (history s)"
proof -
  have "history ((undo ^^ k) s) =
     \<lparr> past = take (length (past (history s)) - k) (past (history s)),
       present = present (history s),
       future = replicate k (present (history s)) @ future (history s) \<rparr>"
    using assms(2) by (rule undo_iter)
  then have "future (history ((undo ^^ k) s)) = replicate k (present (history s)) @ future (history s)"
    "present (history ((undo ^^ k) s)) = present (history s)"
    by simp_all
  from redo_iter [OF this] assms(1) show ?thesis by simp
qed

lemma commits_history: "commits a \<Longrightarrow> history (perform a s) = committed s (perform a s)"
  by (cases a) (simp_all add: addNode_fields deleteNode_history deleteNodes_history)

lemma run_commits_past:
  "list_all commits as \<Longrightarrow> length (past (history (run as s))) = length (past (history s)) + length as"
proof (induction as arbitrary: s)
  case Nil
  then show ?case by simp
next
  case (Cons a as)
  then show ?case by (simp add: commits_history committed_def)
qed

lemma run_commits_present:
  "list_all commits as \<Longrightarrow> as \<noteq> [] \<Longrightarrow> present (history (run as s)) = snapshot_of (run as s)"
proof (induction as arbitrary: s)
  case Nil
  then show ?case by simp
next
  case (Cons a as)
  show ?case
  proof (cases as)
    case Nil
    then show ?thesis using Cons.prems by (simp add: commits_history committed_def)
  next
    case (Cons b bs)
    then have "as \<noteq> []" by simp
    then show ?thesis using Cons.IH [of "perform a s"] Cons.prems by simp
  qed
qed

lemma commit_roundtrip:
  assumes "list_all commits as" "as \<noteq> []"
  shows "snapshot_of ((redo ^^ length as) ((undo ^^ length as) (run as s))) = snapshot_of (run as s)"
proof -
  have "0 < length as" using assms(2) by simp
  moreover have "length as \<le> length (past (history (run as s)))"
    by (simp add: run_commits_past [OF assms(1)])
  ultimately have "snapshot_of ((redo ^^ length as) ((undo ^^ length as) (run as s)))
                   = present (history (run as s))"
    by (rule undo_redo_restores_present)
  then show ?thesis by (simp add: run_commits_present [OF assms])
qed

section \<open>The layout of two stacked nodes\<close>

lemma stacked_fields:
  "nodes stacked = [tall, small]"
  "connections stacked = []"
  "selectedNodeIds stacked = [''node-100'', ''node-200'']"
  "past (history stacked) \<noteq> []"
  "map node_y (snap_nodes (present (history stacked))) = [0, 6940]"
  "future (history stacked) = []"
  unfolding stacked_def selectMultipleNodes_fields addNode_fields updateNode_fields committed_def
  by (simp_all add: initialState_fields snapshot_of_def selectMultipleNodes_def addNode_fields updateNode_fields)
     (simp_all add: new_node_def apply_updates_def no_updates_def or_else_def string_of_small
        tall_def small_def)

lemma stacked_ids: "node_id tall = ''node-100''" "node_id small = ''node-200''"
  by (simp_all add: tall_def small_def new_node_def string_of_small)

lemma to_org: "nodesToOrganize stacked = Some [tall, small]"
  by (simp add: nodesToOrganize_def stacked_fields stacked_ids)

lemma bygroup: "nodesByGroup [tall, small] = [(None, [tall, small])]"
  by (simp add: nodesByGroup_def push_by_group_def tall_def small_def new_node_def)

lemma relconn: "relevantConnections ns [] = []"
  by (simp add: relevantConnections_def)

lemma init_ph: "fold (\<lambda>n ps. physics_set (init_physics n) ps) [tall, small] [] = ph0"
  by (simp add: ph0_def init_physics_def stacked_ids)

lemma centers0: "fold init_group_center [(None, [tall, small])] [] = []"
  by (simp add: init_group_center_def truthy_id_def)

lemma ph0_fields:
  "map ph_x ph0 = [100, 100]" "map ph_y ph0 = [7000, 7000]" "map vx ph0 = [0, 0]" "map vy ph0 = [0, 0]"
  by (simp_all add: ph0_def init_physics_def tall_def small_def new_node_def)

lemma damp_still: "vx p = 0 \<Longrightarrow> vy p = 0 \<Longrightarrow> damp p = p"
  by (simp add: damp_def)

lemma integrate_still: "vx p = 0 \<Longrightarrow> vy p = 0 \<Longrightarrow> integrate p = p"
  by (simp add: integrate_def MAX_VELOCITY_def)

lemma ph0_still: "vx (init_physics n) = 0" "vy (init_physics n) = 0"
  by (simp_all add: init_physics_def)

lemma ph0_centre:
  "ph_x (init_physics tall) = 100" "ph_y (init_physics tall) = 7000"
  "ph_x (init_physics small) = 100" "ph_y (init_physics small) = 7000"
  by (simp_all add: init_physics_def tall_def small_def new_node_def)

lemma repulse_same_centre:
  "ph_x (ps ! i) = ph_x (ps ! j) \<Longrightarrow> ph_y (ps ! i) = ph_y (ps ! j) \<Longrightarrow> repulse_pair i j ps = ps"
  by (simp add: repulse_pair_def)

lemma repulsion_ph0: "repulsion ph0 = ph0"
proof -
  have "repulse_pair 0 1 ph0 = ph0"
    by (rule repulse_same_centre) (simp_all add: ph0_def ph0_centre)
  then show ?thesis
    by (simp add: repulsion_def ph0_def upt_rec)
qed

lemma step0:
  "sim_step [] [(None, [tall, small])]
     \<lparr> nodePhysics = ph0, groupCenters = [], iteration = 0, converged = False \<rparr>
   = \<lparr> nodePhysics = ph0, groupCenters = [], iteration = 1, converged = True \<rparr>"
proof -
  have d: "map damp ph0 = ph0" by (simp add: ph0_def damp_still ph0_still)
  have i: "map integrate ph0 = ph0" by (simp add: ph0_def integrate_still ph0_still)
  have t: "totalMovement ph0 = 0" by (simp add: totalMovement_def ph0_def ph0_still)
  have l: "length ph0 = 2" by (simp add: ph0_def)
  show ?thesis
    unfolding sim_step_def Let_def simulation.simps d repulsion_ph0
    by (simp add: cohesion_def update_group_center_def truthy_id_def i t l CONVERGENCE_THRESHOLD_def)
qed

lemma simulate_converged: "converged st \<Longrightarrow> simulate k c g st = st"
  by (cases k) simp_all

lemma simulate_unfold:
  "\<not> converged st \<Longrightarrow> 0 < k \<Longrightarrow> simulate k c g st = simulate (k - 1) c g (sim_step c g st)"
  by (cases k) simp_all

lemma simulate_iteration: "iteration (simulate k c g st) \<le> iteration st + k"
proof (induction k arbitrary: st)
  case 0
  then show ?case by simp
next
  case (Suc k)
  have "iteration (sim_step c g st) = iteration st + 1" by (simp add: sim_step_def Let_def)
  with Suc [of "sim_step c g st"] show ?case by simp
qed

lemma sim_stacked:
  "simulate MAX_ITERATIONS [] [(None, [tall, small])]
     \<lparr> nodePhysics = ph0, groupCenters = [], iteration = 0, converged = False \<rparr>
   = \<lparr> nodePhysics = ph0, groupCenters = [], iteration = 1, converged = True \<rparr>"
  by (simp add: simulate_unfold MAX_ITERATIONS_def step0 simulate_converged)

lemma stacked_sizes:
  "node_width tall = 200" "node_height tall = 14000" "node_width small = 200" "node_height small = 120"
  by (simp_all add: tall_def small_def new_node_def)

lemma final0: "map to_final ph0 = pos 0 6940"
  by (simp add: ph0_def to_final_def pos_def ph0_centre)
     (simp add: init_physics_def stacked_ids stacked_sizes)

lemma find_stacked:
  "find (\<lambda>n. node_id n = ''node-100'') [tall, small] = Some tall"
  "find (\<lambda>n. node_id n = ''node-200'') [tall, small] = Some small"
  by (simp_all add: stacked_ids)

lemma pair_contained:
  assumes "a \<le> b" "b + 60 \<le> a + 7000"
  shows "resolve_pair [tall, small] 0 1 (False, pos a b) = (True, pos (a + 70) (b - 70))"
proof -
  have mn: "min (a + 14000) (b + 120) = b + 120" "max a b = b" "\<not> a + 7000 < b + 60"
    using assms by simp_all
  have p: "pos a b ! 0 = \<lparr> f_id = ''node-100'', f_x = 0, f_y = a \<rparr>"
     "pos a b ! 1 = \<lparr> f_id = ''node-200'', f_x = 0, f_y = b \<rparr>"
    by (simp_all add: pos_def)
  have c: "max 0 (min (0 + 200) (0 + 200) - max 0 0) = (200::real)"
    "max 0 (b + 120 - b) = (120::real)" "a + 14000 / 2 < b + 120 / 2 \<longleftrightarrow> False"
    "(0::real) < 200 \<and> (0::real) < 120 \<longleftrightarrow> True" "(200::real) < 120 \<longleftrightarrow> False"
    using assms by simp_all
  show ?thesis
    unfolding resolve_pair_def prod.case Let_def p
    apply (simp only: final_pos.simps find_stacked option.sel stacked_sizes mn)
    apply (simp only: pos_def c)
    apply (simp only: mn if_False if_True simp_thms)
    by simp
qed


lemma pass_contained:
  assumes "a \<le> b" "b + 60 \<le> a + 7000"
  shows "resolve_pass [tall, small] (pos a b) = (True, pos (a + 70) (b - 70))"
proof -
  have l: "length (pos a b) = 2" by (simp add: pos_def)
  have u: "[0 ..< (2::nat)] = [0, 1]" "[0 + 1 ..< (2::nat)] = [1]" "[1 + 1 ..< (2::nat)] = []"
    by (simp_all add: upt_rec)
  have "resolve_pass [tall, small] (pos a b) = resolve_pair [tall, small] 0 1 (False, pos a b)"
    unfolding resolve_pass_def l u(1) by (simp only: fold_simps u id_apply comp_apply)
  then show ?thesis by (simp only: pair_contained [OF assms])
qed

lemma passes:
  "b + 60 \<le> a + 7000 \<Longrightarrow> a + 140 * real k \<le> b + 140 \<Longrightarrow>
   resolve_overlaps k [tall, small] (True, pos a b) = (True, pos (a + 70 * real k) (b - 70 * real k))"
proof (induction k arbitrary: a b)
  case 0
  then show ?case by simp
next
  case (Suc k)
  have k0: "0 \<le> real k" by simp
  have r: "140 * real (Suc k) = 140 * real k + 140" "70 * real (Suc k) = 70 * real k + 70"
    by simp_all
  have p2: "a + (140 * real k + 140) \<le> b + 140" using Suc.prems(2) by (simp only: r)
  have ab: "a \<le> b" using p2 k0 by linarith
  have step: "resolve_pass [tall, small] (pos a b) = (True, pos (a + 70) (b - 70))"
    using pass_contained [OF ab Suc.prems(1)] .
  have 1: "b - 70 + 60 \<le> a + 70 + 7000" using Suc.prems(1) by linarith
  have 2: "a + 70 + 140 * real k \<le> b - 70 + 140" using p2 by linarith
  have e: "a + 70 + 70 * real k = a + 70 * real (Suc k)" "b - 70 - 70 * real k = b - 70 * real (Suc k)"
    unfolding r by linarith+
  have "resolve_overlaps (Suc k) [tall, small] (True, pos a b)
        = resolve_overlaps k [tall, small] (True, pos (a + 70) (b - 70))"
    by (simp only: resolve_overlaps.simps fst_conv snd_conv step if_True)
  also have "\<dots> = (True, pos (a + 70 + 70 * real k) (b - 70 - 70 * real k))"
    by (rule Suc.IH [OF 1 2])
  finally show ?case by (simp only: e)
qed

lemma resolved:
  "resolve_overlaps maxOverlapIterations [tall, small] (True, pos 0 6940) = (True, pos 3500 3440)"
proof -
  have "resolve_overlaps 50 [tall, small] (True, pos 0 6940)
        = (True, pos (0 + 70 * real 50) (6940 - 70 * real 50))"
    by (rule passes) simp_all
  then show ?thesis by (simp add: maxOverlapIterations_def)
qed

lemma layout_stacked: "layout [tall, small] [] = pos 3500 3440"
  unfolding layout_def Let_def bygroup relconn init_ph centers0 sim_stacked
  by (simp add: final0 resolved)

lemma round_int: "js_round 3500 = 3500" "js_round 3440 = 3440" "js_round 0 = 0"
  by (simp_all add: js_round_def)

lemma stacked_shape:
  "map (\<lambda>n. (node_id n, node_x n, node_y n, node_width n, node_height n)) [tall, small]
   = [(''node-100'', 0, 0, 200, 14000), (''node-200'', 0, 6940, 200, 120)]"
  by (simp add: stacked_ids stacked_sizes) (simp add: tall_def small_def new_node_def)

lemma organized:
  "nodes (autoOrganizeNodes 300 stacked) =
     [tall \<lparr> node_x := 0, node_y := 3500, updatedAt := 300 \<rparr>,
      small \<lparr> node_x := 0, node_y := 3440, updatedAt := 300 \<rparr>]"
  "connections (autoOrganizeNodes 300 stacked) = connections stacked"
  "groups (autoOrganizeNodes 300 stacked) = groups stacked"
  "history (autoOrganizeNodes 300 stacked) =
     \<lparr> past = past (history stacked) @ [snapshot_of stacked],
       present = present (history stacked), future = [] \<rparr>"
  by (simp_all add: autoOrganizeNodes_def to_org stacked_fields layout_stacked pos_def
        place_def stacked_ids round_int)

text \<open>
  C8. The two stacked nodes are selected and laid out. Their centres coincide, so the
  simulation moves nothing and stops after its first iteration; each of the 50 overlap
  passes then finds the small node inside the tall one, measures an overlap of 120 (the
  small node's height) and moves the two 140 apart. After the last pass the tall node is
  at \<open>y = 3500\<close> and the small one at \<open>y = 3440\<close>: the small node still lies across the
  top edge of the tall one, and their bounding boxes overlap on both axes.
\<close>

theorem layout_leaves_overlap:
  "map (\<lambda>n. (node_id n, node_x n, node_y n, node_width n, node_height n)) (nodes stacked)
     = [(''node-100'', 0, 0, 200, 14000), (''node-200'', 0, 6940, 200, 120)]
   \<and> selectedNodeIds stacked = [''node-100'', ''node-200'']
   \<and> map (\<lambda>n. (node_id n, node_x n, node_y n, node_width n, node_height n))
         (nodes (autoOrganizeNodes 300 stacked))
     = [(''node-100'', 0, 3500, 200, 14000), (''node-200'', 0, 3440, 200, 120)]
   \<and> boxes_overlap (nodes (autoOrganizeNodes 300 stacked) ! 0)
                     (nodes (autoOrganizeNodes 300 stacked) ! 1)"
proof -
  have s: "node_id tall = ''node-100''" "node_id small = ''node-200''"
    "node_x tall = 0" "node_x small = 0" "node_y tall = 0" "node_y small = 6940"
    "node_width tall = 200" "node_height tall = 14000"
    "node_width small = 200" "node_height small = 120"
    using stacked_shape by simp_all
  show ?thesis
    by (simp add: organized stacked_fields boxes_overlap_def s)
qed

text \<open>
  C3. One committing mutation, the layout of the two stacked nodes, then one undo and one
  redo. The layout pushes the snapshot taken before it onto the past and leaves
  \<^verbatim>\<open>history.present\<close> as it was; undo restores the positions before the layout, and redo
  restores \<^verbatim>\<open>history.present\<close>, which holds those same old positions: the positions the
  layout computed are not reproduced. (For \<^verbatim>\<open>addNode\<close>, \<^verbatim>\<open>deleteNode\<close> and \<^verbatim>\<open>deleteNodes\<close>,
  which write \<^verbatim>\<open>present\<close>, the round trip does hold: \<open>commit_roundtrip\<close>.)
\<close>

theorem layout_redo_loses_positions:
  "map node_y (nodes stacked) = [0, 6940]
   \<and> map node_y (nodes (autoOrganizeNodes 300 stacked)) = [3500, 3440]
   \<and> present (history (autoOrganizeNodes 300 stacked)) = present (history stacked)
   \<and> map node_y (nodes (undo (autoOrganizeNodes 300 stacked))) = [0, 6940]
   \<and> map node_y (nodes (redo (undo (autoOrganizeNodes 300 stacked)))) = [0, 6940]
   \<and> nodes (redo (undo (autoOrganizeNodes 300 stacked))) \<noteq> nodes (autoOrganizeNodes 300 stacked)"
proof -
  let ?o = "autoOrganizeNodes 300 stacked"
  have y: "node_y tall = 0" "node_y small = 6940"
    using stacked_shape by simp_all
  have p: "past (history ?o) \<noteq> []" by (simp add: organized)
  have u: "nodes (undo ?o) = [tall, small]"
    by (simp add: undo_fields(1) [OF p] organized snapshot_of_def stacked_fields)
  have f: "future (history (undo ?o)) = present (history stacked) # []"
    by (simp add: undo_fields(4) [OF p] organized)
  have r: "nodes (redo (undo ?o)) = snap_nodes (present (history stacked))"
    by (rule redo_fields(1) [OF f])
  have o: "map node_y (nodes ?o) = [3500, 3440]" by (simp add: organized)
  have ry: "map node_y (nodes (redo (undo ?o))) = [0, 6940]"
    by (simp only: r stacked_fields)
  have "nodes (redo (undo ?o)) \<noteq> nodes ?o"
  proof
    assume "nodes (redo (undo ?o)) = nodes ?o"
    then have "map node_y (nodes (redo (undo ?o))) = map node_y (nodes ?o)" by simp
    then show False by (simp only: ry o) simp
  qed
  then show ?thesis
    by (simp add: o ry u y stacked_fields organized)
qed

text \<open>The simulation never runs more than its 300 iterations.\<close>

lemma layout_iterations:
  "iteration (simulate MAX_ITERATIONS c g
     \<lparr> nodePhysics = ps, groupCenters = gc, iteration = 0, converged = False \<rparr>) \<le> 300"
  using simulate_iteration [of MAX_ITERATIONS c g
     "\<lparr> nodePhysics = ps, groupCenters = gc, iteration = 0, converged = False \<rparr>"]
  by (simp add: MAX_ITERATIONS_def)

end
